theory Spec2Isabelle
  imports Complex_Main
begin

section \<open>Data model of \<open>src/App.tsx\<close>\<close>

text \<open>
  The dashboard component keeps five pieces of state (\<open>useState\<close>): the asset
  records, the funding-rate map, a loading flag, an error string and the time of
  the last update. JavaScript numbers are modelled as \<^typ>\<open>real\<close>: the rounding of
  IEEE doubles and the value NaN are outside the model. Strings are \<^typ>\<open>string\<close>.
\<close>

record CryptoData =
  id' :: string
  name :: string
  symbol :: string
  current_price :: real
  price_change_percentage_24h :: real
  price_change_percentage_7d :: real
  total_volume :: real
  image' :: string
  high_24h :: real
  low_24h :: real
  ath :: real
  ath_change_percentage :: real
  circulating_supply :: real
  funding_rate :: "real option"

type_synonym FundingRateData = "string \<rightharpoonup> real"

record appState =
  cryptoData :: "CryptoData list"
  fundingRates :: FundingRateData
  loading :: bool
  error :: "string option"
  lastUpdated :: nat

text \<open>The initial values of the five \<open>useState\<close> hooks, at clock time \<open>t\<close>.\<close>

definition initialState :: "nat \<Rightarrow> appState" where
  "initialState t =
     \<lparr>cryptoData = [], fundingRates = Map.empty, loading = True, error = None, lastUpdated = t\<rparr>"

definition targetCoins :: "string list" where
  "targetCoins =
     [''bitcoin'', ''ethereum'', ''binancecoin'', ''solana'', ''cardano'', ''sui'',
      ''sei-network'', ''hype-token'', ''dogecoin'', ''bonk'']"

text \<open>
  The object literal returned by the two signal functions; \<open>null\<close> is
  \<^term>\<open>None\<close>. Only two literals occur in the source.
\<close>

record signalBadge =
  signal :: string
  color :: string
  bgColor :: string

definition BUY :: signalBadge where
  "BUY = \<lparr>signal = ''BUY'', color = ''text-green-500'', bgColor = ''bg-green-500/10''\<rparr>"

definition SELL :: signalBadge where
  "SELL = \<lparr>signal = ''SELL'', color = ''text-red-500'', bgColor = ''bg-red-500/10''\<rparr>"

subsection \<open>Strings and numbers\<close>

text \<open>
  \<open>String.prototype.toUpperCase\<close> on the ASCII letters; every other character is
  left as it is (the case mappings of non-ASCII characters are outside the model).
\<close>

definition upperChar :: "char \<Rightarrow> char" where
  "upperChar c =
     (case map_of (zip ''abcdefghijklmnopqrstuvwxyz'' ''ABCDEFGHIJKLMNOPQRSTUVWXYZ'') c of
        Some u \<Rightarrow> u
      | None \<Rightarrow> c)"

definition toUpperCase :: "string \<Rightarrow> string" where
  "toUpperCase s = map upperChar s"

text \<open>A natural number inside a template literal: its decimal digits.\<close>

fun showNat :: "nat \<Rightarrow> string" where
  "showNat n =
     (if n < 10 then [''0123456789'' ! n]
      else showNat (n div 10) @ [''0123456789'' ! (n mod 10)])"

section \<open>Data acquisition\<close>

subsection \<open>The fallback dataset\<close>

text \<open>\<open>mockCryptoData\<close>, lines 69 to 220.\<close>

definition mockCryptoData :: "CryptoData list" where
  "mockCryptoData =
     [
       \<lparr>id' = ''bitcoin'', name = ''Bitcoin'', symbol = ''btc'',
        current_price = 43250.67, price_change_percentage_24h = 2.34,
        price_change_percentage_7d = - 1.23, total_volume = 18500000000,
        image' = ''https://assets.coingecko.com/coins/images/1/large/bitcoin.png'',
        high_24h = 44100.50, low_24h = 42800.25, ath = 69045.00,
        ath_change_percentage = - 37.4, circulating_supply = 19750000, funding_rate = None\<rparr>,
       \<lparr>id' = ''ethereum'', name = ''Ethereum'', symbol = ''eth'',
        current_price = 2567.89, price_change_percentage_24h = - 0.87,
        price_change_percentage_7d = 3.45, total_volume = 12300000000,
        image' = ''https://assets.coingecko.com/coins/images/279/large/ethereum.png'',
        high_24h = 2620.45, low_24h = 2540.12, ath = 4878.26,
        ath_change_percentage = - 47.4, circulating_supply = 120400000, funding_rate = None\<rparr>,
       \<lparr>id' = ''binancecoin'', name = ''BNB'', symbol = ''bnb'',
        current_price = 315.42, price_change_percentage_24h = 1.56,
        price_change_percentage_7d = - 2.1, total_volume = 890000000,
        image' = ''https://assets.coingecko.com/coins/images/825/large/bnb-icon2_2x.png'',
        high_24h = 320.15, low_24h = 310.80, ath = 686.31, ath_change_percentage = - 54.0,
        circulating_supply = 153856150, funding_rate = None\<rparr>,
       \<lparr>id' = ''solana'', name = ''Solana'', symbol = ''sol'',
        current_price = 98.76, price_change_percentage_24h = 4.23,
        price_change_percentage_7d = 8.91, total_volume = 2100000000,
        image' = ''https://assets.coingecko.com/coins/images/4128/large/solana.png'',
        high_24h = 102.45, low_24h = 94.20, ath = 259.96, ath_change_percentage = - 62.0,
        circulating_supply = 467000000, funding_rate = None\<rparr>,
       \<lparr>id' = ''cardano'', name = ''Cardano'', symbol = ''ada'',
        current_price = 0.4567, price_change_percentage_24h = - 1.23,
        price_change_percentage_7d = 2.34, total_volume = 450000000,
        image' = ''https://assets.coingecko.com/coins/images/975/large/cardano.png'',
        high_24h = 0.4720, low_24h = 0.4450, ath = 3.09, ath_change_percentage = - 85.2,
        circulating_supply = 35000000000, funding_rate = None\<rparr>,
       \<lparr>id' = ''sui'', name = ''Sui'', symbol = ''sui'', current_price = 3.45,
        price_change_percentage_24h = 6.78, price_change_percentage_7d = 12.34,
        total_volume = 180000000,
        image' = ''https://assets.coingecko.com/coins/images/26375/large/sui_asset.jpeg'',
        high_24h = 3.67, low_24h = 3.21, ath = 4.96, ath_change_percentage = - 30.4,
        circulating_supply = 2800000000, funding_rate = None\<rparr>,
       \<lparr>id' = ''sei-network'', name = ''Sei'', symbol = ''sei'',
        current_price = 0.4234, price_change_percentage_24h = - 2.45,
        price_change_percentage_7d = 5.67, total_volume = 95000000,
        image' = ''https://assets.coingecko.com/coins/images/28205/large/sei.png'',
        high_24h = 0.4456, low_24h = 0.4123, ath = 1.14, ath_change_percentage = - 62.9,
        circulating_supply = 3800000000, funding_rate = None\<rparr>,
       \<lparr>id' = ''hype-token'', name = ''Hyperliquid'', symbol = ''hype'',
        current_price = 28.67, price_change_percentage_24h = 8.91,
        price_change_percentage_7d = - 3.45, total_volume = 320000000,
        image' = ''https://assets.coingecko.com/coins/images/34437/large/hype.png'',
        high_24h = 30.12, low_24h = 26.45, ath = 34.78, ath_change_percentage = - 17.6,
        circulating_supply = 270000000, funding_rate = None\<rparr>,
       \<lparr>id' = ''dogecoin'', name = ''Dogecoin'', symbol = ''doge'',
        current_price = 0.0789, price_change_percentage_24h = 3.45,
        price_change_percentage_7d = - 1.23, total_volume = 890000000,
        image' = ''https://assets.coingecko.com/coins/images/5/large/dogecoin.png'',
        high_24h = 0.0812, low_24h = 0.0756, ath = 0.7376, ath_change_percentage = - 89.3,
        circulating_supply = 147000000000, funding_rate = None\<rparr>,
       \<lparr>id' = ''bonk'', name = ''Bonk'', symbol = ''bonk'',
        current_price = 0.00003456, price_change_percentage_24h = 12.34,
        price_change_percentage_7d = 23.45, total_volume = 67000000,
        image' = ''https://assets.coingecko.com/coins/images/28600/large/bonk.jpg'',
        high_24h = 0.00003678, low_24h = 0.00003123, ath = 0.00004704,
        ath_change_percentage = - 26.5, circulating_supply = 75000000000000,
        funding_rate = None\<rparr>
     ]"

subsection \<open>Simulated funding rates\<close>

text \<open>
  \<open>generateFundingRates\<close>, lines 226 to 248. \<open>Object.entries(baseRates)\<close> lists
  the entries in the order of the literal; \<open>forEach\<close> calls \<open>Math.random()\<close> once
  per entry. The random source is the function \<open>rnd\<close>: \<open>rnd i\<close> is what the
  \<open>i\<close>-th call returns, a number in \<open>[0, 1)\<close>.
\<close>

definition baseRates :: "(string \<times> real) list" where
  "baseRates =
     [(''BTC'', 0.0123), (''ETH'', - 0.0087), (''BNB'', 0.0034), (''SOL'', - 0.0156),
      (''ADA'', 0.0089), (''SUI'', - 0.0023), (''SEI'', 0.0067), (''HYPE'', - 0.0134),
      (''DOGE'', 0.0045), (''BONK'', - 0.0078)]"

fun forEachRate ::
  "(string \<times> real) list \<Rightarrow> nat \<Rightarrow> (nat \<Rightarrow> real) \<Rightarrow> FundingRateData \<Rightarrow> FundingRateData" where
  "forEachRate [] i rnd rates = rates"
| "forEachRate ((key, baseRate) # entries) i rnd rates =
     (let variation = (rnd i - 0.5) * 0.002
      in forEachRate entries (Suc i) rnd (rates(key \<mapsto> baseRate + variation)))"

definition generateFundingRates :: "(nat \<Rightarrow> real) \<Rightarrow> FundingRateData" where
  "generateFundingRates rnd = forEachRate baseRates 0 rnd Map.empty"

subsection \<open>One invocation of \<open>fetchCryptoData\<close>\<close>

text \<open>
  What the environment hands to one invocation: the outcome of \<open>fetch\<close> (a
  rejected promise, or a response with its \<open>ok\<close> flag and the result of
  \<open>response.json()\<close>, \<^term>\<open>None\<close> when that promise rejects), the random source,
  the clock, and whether a statement of the outer \<open>try\<close> block after the inner
  \<open>try\<close>/\<open>catch\<close> (lines 225 to 251) throws. No statement there throws by
  itself; the flag is what makes the outer \<open>catch\<close> reachable in the model.
  The response body is typed as the source types it, a \<open>CryptoData[]\<close>.
\<close>

record response =
  ok :: bool
  status :: nat
  statusText :: string
  json :: "CryptoData list option"

datatype fetchOutcome = Rejected | Resolved response

record env =
  fetchResult :: fetchOutcome
  mathRandom :: "nat \<Rightarrow> real"
  dateNow :: nat
  throwsAfter :: bool

text \<open>
  What an invocation leaves behind besides the new state: a timer
  \<open>setTimeout(() => fetchCryptoData(k), delay)\<close>, written \<open>SetTimeout k delay\<close>
  with the delay in milliseconds, or the direct call \<open>fetchCryptoData()\<close> of
  line 268.
\<close>

datatype effect = SetTimeout nat nat | Refetch

text \<open>
  The inner \<open>try\<close>/\<open>catch\<close>, lines 46 to 223: a rejected fetch, a response that
  is not \<open>ok\<close> and a body that does not parse all end in the inner \<open>catch\<close>,
  which stores the fallback dataset.
\<close>

definition fetchFailed :: "fetchOutcome \<Rightarrow> bool" where
  "fetchFailed r =
     (case r of
        Rejected \<Rightarrow> True
      | Resolved resp \<Rightarrow> \<not> ok resp \<or> json resp = None)"

definition directFetch :: "fetchOutcome \<Rightarrow> appState \<Rightarrow> appState" where
  "directFetch r st =
     (case r of
        Rejected \<Rightarrow> st\<lparr>cryptoData := mockCryptoData\<rparr>
      | Resolved resp \<Rightarrow>
          if \<not> ok resp then st\<lparr>cryptoData := mockCryptoData\<rparr>
          else
            (case json resp of
               None \<Rightarrow> st\<lparr>cryptoData := mockCryptoData\<rparr>
             | Some data \<Rightarrow> st\<lparr>cryptoData := data\<rparr>))"

text \<open>
  \<open>fetchCryptoData\<close>, lines 38 to 273. \<open>seen\<close> is the value of \<open>cryptoData\<close>
  that the closure captured (the test of line 267 reads it, not the state being
  written); \<open>st\<close> is the component state the setters write to. The \<open>finally\<close>
  block clears the loading flag on every path.
\<close>

definition fetchCryptoData ::
  "env \<Rightarrow> CryptoData list \<Rightarrow> nat \<Rightarrow> appState \<Rightarrow> appState \<times> effect list" where
  "fetchCryptoData e seen retryCount st =
     (let st1 = st\<lparr>error := None\<rparr>;
          st2 = directFetch (fetchResult e) st1
      in if \<not> throwsAfter e then
           (st2\<lparr>fundingRates := generateFundingRates (mathRandom e),
                lastUpdated := dateNow e, loading := False\<rparr>, [])
         else if retryCount < 3 then
           (let delay = 2 ^ retryCount * 1000
            in (st2\<lparr>loading := False\<rparr>, [SetTimeout (retryCount + 1) delay]))
         else
           (let st3 = st2\<lparr>error := Some (''Connection failed after '' @ showNat (retryCount + 1)
                                           @ '' attempts. Using offline data.'')\<rparr>
            in (st3\<lparr>loading := False\<rparr>, if seen = [] then [Refetch] else [])))"

subsection \<open>A retry episode\<close>



section \<open>Signal derivation\<close>

text \<open>
  \<open>!rate\<close> holds when the property is missing (\<open>undefined\<close>) and when the
  number is \<open>0\<close>.
\<close>

definition falsy :: "real option \<Rightarrow> bool" where
  "falsy rate = (case rate of None \<Rightarrow> True | Some r \<Rightarrow> r = 0)"

text \<open>\<open>getFundingSignal\<close>, lines 304 to 314.\<close>

definition getFundingSignal :: "appState \<Rightarrow> string \<Rightarrow> signalBadge option" where
  "getFundingSignal st s =
     (let rate = fundingRates st (toUpperCase s) in
      if falsy rate then None
      else
        (case rate of
           Some r \<Rightarrow>
             if r \<ge> 0.005 then Some SELL
             else if r \<le> - 0.005 then Some BUY
             else None
         | None \<Rightarrow> None))"

text \<open>
  \<open>getTradeSignal\<close>, lines 317 to 342. The branch \<open>if (!rate)\<close> looks the
  record up with \<open>Array.prototype.find\<close> (the first match, line 322, here
  \<open>findCrypto\<close>), applies the 24h rule when a record was found, and otherwise
  reaches the ternary on the symbol of lines 331 to 333, here \<open>defaultSignal\<close>.
\<close>

definition defaultSignal :: "string \<Rightarrow> signalBadge" where
  "defaultSignal s = (if toUpperCase s = ''BNB'' then BUY else SELL)"

definition findCrypto :: "appState \<Rightarrow> string \<Rightarrow> CryptoData option" where
  "findCrypto st s = List.find (\<lambda>c. toUpperCase (symbol c) = toUpperCase s) (cryptoData st)"

definition getTradeSignal :: "appState \<Rightarrow> string \<Rightarrow> signalBadge option" where
  "getTradeSignal st s =
     (let rate = fundingRates st (toUpperCase s) in
      if falsy rate then
        (case findCrypto st s of
           Some crypto \<Rightarrow>
             if price_change_percentage_24h crypto \<ge> 2 then Some BUY
             else if price_change_percentage_24h crypto \<le> - 2 then Some SELL
             else Some (defaultSignal s)
         | None \<Rightarrow> Some (defaultSignal s))
      else
        (case rate of
           Some r \<Rightarrow>
             if r \<ge> 0.005 then Some SELL
             else if r \<le> - 0.005 then Some BUY
             else None
         | None \<Rightarrow> None))"

text \<open>
  A call of \<open>getTradeSignal\<close> as a step on the component state. The body calls
  no setter and assigns to nothing but its locals, so the state is handed on as
  it was.
\<close>

definition getTradeSignal_call :: "string \<Rightarrow> appState \<Rightarrow> signalBadge option \<times> appState" where
  "getTradeSignal_call s st = (getTradeSignal st s, st)"

text \<open>
  A random source that returns \<open>1/2\<close> on every call (no variation of the base
  rates), an environment whose fetch is rejected, and the state that the first
  cycle reaches in it.
\<close>

definition noNoise :: "nat \<Rightarrow> real" where
  "noNoise i = 1 / 2"

definition rejectedEnv :: "bool \<Rightarrow> env" where
  "rejectedEnv t = \<lparr>fetchResult = Rejected, mathRandom = noNoise, dateNow = 0, throwsAfter = t\<rparr>"

definition offlineState :: appState where
  "offlineState = fst (fetchCryptoData (rejectedEnv False) [] 0 (initialState 0))"

section \<open>Facts about the model\<close>

lemma toUpperCase_tracked:
  "toUpperCase ''BTC'' = ''BTC''" "toUpperCase ''ETH'' = ''ETH''"
  "toUpperCase ''btc'' = ''BTC''" "toUpperCase ''eth'' = ''ETH''"
  "toUpperCase ''bnb'' = ''BNB''" "toUpperCase ''sui'' = ''SUI''"
  "toUpperCase ''sei'' = ''SEI''"
  by (simp_all add: toUpperCase_def upperChar_def)


lemma generateFundingRates_unfold:
  "generateFundingRates rnd =
     [''BTC'' \<mapsto> 0.0123 + (rnd 0 - 0.5) * 0.002,
      ''ETH'' \<mapsto> - 0.0087 + (rnd 1 - 0.5) * 0.002,
      ''BNB'' \<mapsto> 0.0034 + (rnd 2 - 0.5) * 0.002,
      ''SOL'' \<mapsto> - 0.0156 + (rnd 3 - 0.5) * 0.002,
      ''ADA'' \<mapsto> 0.0089 + (rnd 4 - 0.5) * 0.002,
      ''SUI'' \<mapsto> - 0.0023 + (rnd 5 - 0.5) * 0.002,
      ''SEI'' \<mapsto> 0.0067 + (rnd 6 - 0.5) * 0.002,
      ''HYPE'' \<mapsto> - 0.0134 + (rnd 7 - 0.5) * 0.002,
      ''DOGE'' \<mapsto> 0.0045 + (rnd 8 - 0.5) * 0.002,
      ''BONK'' \<mapsto> - 0.0078 + (rnd 9 - 0.5) * 0.002]"
  unfolding generateFundingRates_def baseRates_def forEachRate.simps Let_def
  by (simp add: eval_nat_numeral)

lemma mock_shape:
  "length mockCryptoData = 10"
  "map id' mockCryptoData = targetCoins"
  "map (\<lambda>c. toUpperCase (symbol c)) mockCryptoData = map fst baseRates"
  by (simp_all add: mockCryptoData_def targetCoins_def baseRates_def toUpperCase_def upperChar_def)

lemma find_mock:
  "List.find (\<lambda>c. toUpperCase (symbol c) = ''BTC'') mockCryptoData = Some (mockCryptoData ! 0)"
  "List.find (\<lambda>c. toUpperCase (symbol c) = ''ETH'') mockCryptoData = Some (mockCryptoData ! 1)"
  "List.find (\<lambda>c. toUpperCase (symbol c) = ''BNB'') mockCryptoData = Some (mockCryptoData ! 2)"
  "List.find (\<lambda>c. toUpperCase (symbol c) = ''SUI'') mockCryptoData = Some (mockCryptoData ! 5)"
  "List.find (\<lambda>c. toUpperCase (symbol c) = ''SEI'') mockCryptoData = Some (mockCryptoData ! 6)"
  by (simp_all add: mockCryptoData_def toUpperCase_def upperChar_def)

lemma change_mock:
  "price_change_percentage_24h (mockCryptoData ! 0) = 2.34"
  "price_change_percentage_24h (mockCryptoData ! 1) = - 0.87"
  "price_change_percentage_24h (mockCryptoData ! Suc 0) = - 0.87"
  "price_change_percentage_24h (mockCryptoData ! 2) = 1.56"
  "price_change_percentage_24h (mockCryptoData ! 5) = 6.78"
  "price_change_percentage_24h (mockCryptoData ! 6) = - 2.45"
  by (simp_all add: mockCryptoData_def)

lemma directFetch_failed:
  "fetchFailed r \<Longrightarrow> directFetch r st = st\<lparr>cryptoData := mockCryptoData\<rparr>"
  by (auto simp add: fetchFailed_def directFetch_def split: fetchOutcome.splits option.splits)

lemma directFetch_ok:
  "ok resp \<Longrightarrow> json resp = Some data \<Longrightarrow>
   directFetch (Resolved resp) st = st\<lparr>cryptoData := data\<rparr>"
  by (simp add: directFetch_def)

lemma fetchCryptoData_cryptoData:
  "cryptoData (fst (fetchCryptoData e seen k st)) = cryptoData (directFetch (fetchResult e) st)"
  by (simp add: fetchCryptoData_def Let_def directFetch_def
      split: fetchOutcome.splits option.splits)










lemma offlineState_eq:
  "offlineState =
     \<lparr>cryptoData = mockCryptoData, fundingRates = generateFundingRates noNoise,
      loading = False, error = None, lastUpdated = 0\<rparr>"
  by (simp add: offlineState_def rejectedEnv_def fetchCryptoData_def directFetch_def
      initialState_def)

lemma offlineState_rates:
  "fundingRates offlineState ''BTC'' = Some 0.0123"
  "fundingRates offlineState ''ETH'' = Some (- 0.0087)"
  "fundingRates offlineState ''BNB'' = Some 0.0034"
  "fundingRates offlineState ''SUI'' = Some (- 0.0023)"
  by (simp_all add: offlineState_eq generateFundingRates_unfold noNoise_def)

lemma offline_signals:
  "getTradeSignal offlineState ''btc'' = Some SELL"
  "getTradeSignal offlineState ''eth'' = Some BUY"
  by (simp_all add: getTradeSignal_def findCrypto_def falsy_def toUpperCase_tracked offlineState_rates)

section \<open>Properties of data acquisition\<close>







text \<open>
  Claim C7 as stated fails on the success path: a response with \<open>ok\<close> set and
  a body of one record is stored as it is, a set of one entry.
\<close>

theorem partial_response_stored_as_is:
  "length (cryptoData (fst (fetchCryptoData
      \<lparr>fetchResult = Resolved \<lparr>ok = True, status = 200, statusText = ''OK'',
                               json = Some [hd mockCryptoData]\<rparr>,
       mathRandom = noNoise, dateNow = 0, throwsAfter = False\<rparr>
      [] 0 (initialState 0)))) = 1"
  by (simp add: fetchCryptoData_cryptoData directFetch_def)

text \<open>
  Claim C7, amended. After a cycle whose fetch failed the asset-record array is
  the fallback dataset: exactly 10 entries whose identifiers are the configured
  target assets in the configured order. After a cycle whose fetch succeeded it
  is the array of the response body as it came, with no check of its length, its
  order or its members.
\<close>

theorem snapshot_after_cycle:
  "(fetchFailed (fetchResult e) \<longrightarrow>
      cryptoData (fst (fetchCryptoData e seen k st)) = mockCryptoData
      \<and> length (cryptoData (fst (fetchCryptoData e seen k st))) = 10
      \<and> map id' (cryptoData (fst (fetchCryptoData e seen k st))) = targetCoins)
   \<and> (fetchResult e = Resolved resp \<and> ok resp \<and> json resp = Some data \<longrightarrow>
      cryptoData (fst (fetchCryptoData e seen k st)) = data)"
  by (simp add: fetchCryptoData_cryptoData directFetch_failed directFetch_ok mock_shape)

theorem snapshot_after_cycle_witness:
  "fetchFailed (Resolved \<lparr>ok = False, status = 429, statusText = ''Too Many Requests'', json = None\<rparr>)
   \<and> length (cryptoData (fst (fetchCryptoData
        \<lparr>fetchResult = Resolved \<lparr>ok = False, status = 429, statusText = ''Too Many Requests'',
                                 json = None\<rparr>,
         mathRandom = noNoise, dateNow = 0, throwsAfter = False\<rparr>
        [] 0 (initialState 0)))) = 10
   \<and> map id' (cryptoData (fst (fetchCryptoData
        \<lparr>fetchResult = Resolved \<lparr>ok = False, status = 429, statusText = ''Too Many Requests'',
                                 json = None\<rparr>,
         mathRandom = noNoise, dateNow = 0, throwsAfter = False\<rparr>
        [] 0 (initialState 0)))) = targetCoins
   \<and> cryptoData (fst (fetchCryptoData
        \<lparr>fetchResult = Resolved \<lparr>ok = True, status = 200, statusText = ''OK'',
                                 json = Some (rev mockCryptoData)\<rparr>,
         mathRandom = noNoise, dateNow = 0, throwsAfter = False\<rparr>
        [] 0 (initialState 0))) = rev mockCryptoData"
proof -
  let ?r1 = "\<lparr>ok = False, status = 429, statusText = ''Too Many Requests'', json = None\<rparr>"
  let ?e1 = "\<lparr>fetchResult = Resolved ?r1, mathRandom = noNoise, dateNow = 0,
              throwsAfter = False\<rparr>"
  let ?r2 = "\<lparr>ok = True, status = 200, statusText = ''OK'', json = Some (rev mockCryptoData)\<rparr>"
  let ?e2 = "\<lparr>fetchResult = Resolved ?r2, mathRandom = noNoise, dateNow = 0,
              throwsAfter = False\<rparr>"
  have f: "fetchFailed (Resolved ?r1)"
    by (simp add: fetchFailed_def)
  have f': "fetchFailed (fetchResult ?e1)"
    by (simp add: fetchFailed_def)
  have g: "fetchResult ?e2 = Resolved ?r2 \<and> ok ?r2 \<and> json ?r2 = Some (rev mockCryptoData)"
    by simp
  have 1: "cryptoData (fst (fetchCryptoData ?e1 [] 0 (initialState 0))) = mockCryptoData
           \<and> length (cryptoData (fst (fetchCryptoData ?e1 [] 0 (initialState 0)))) = 10
           \<and> map id' (cryptoData (fst (fetchCryptoData ?e1 [] 0 (initialState 0)))) = targetCoins"
    by (rule snapshot_after_cycle
          [where e = ?e1 and seen = "[]" and k = 0 and st = "initialState 0",
            THEN conjunct1, THEN mp, OF f'])
  have 2: "cryptoData (fst (fetchCryptoData ?e2 [] 0 (initialState 0))) = rev mockCryptoData"
    by (rule snapshot_after_cycle
          [where e = ?e2 and resp = ?r2 and data = "rev mockCryptoData" and seen = "[]" and k = 0
             and st = "initialState 0", THEN conjunct2, THEN mp, OF g])
  show ?thesis
    by (rule conjI [OF f conjI [OF 1 [THEN conjunct2, THEN conjunct1]
          conjI [OF 1 [THEN conjunct2, THEN conjunct2] 2]]])
qed



section \<open>Properties of the signal function\<close>

text \<open>
  Claim C4. A funding rate of at least 0.005 for the upper-cased symbol gives
  SELL and one of at most -0.005 gives BUY, whatever the asset records are; with
  the rates of the two scenarios, BTC at 0.0123 gives SELL and ETH at -0.0087
  gives BUY.
\<close>

theorem funding_threshold_signal:
  "(fundingRates st (toUpperCase s) = Some r \<and> r \<ge> 0.005 \<longrightarrow> getTradeSignal st s = Some SELL)
   \<and> (fundingRates st (toUpperCase s) = Some r \<and> r \<le> - 0.005 \<longrightarrow> getTradeSignal st s = Some BUY)
   \<and> (fundingRates st ''BTC'' = Some 0.0123 \<longrightarrow> getTradeSignal st ''BTC'' = Some SELL)
   \<and> (fundingRates st ''ETH'' = Some (- 0.0087) \<longrightarrow> getTradeSignal st ''ETH'' = Some BUY)"
  by (simp add: getTradeSignal_def findCrypto_def falsy_def toUpperCase_tracked)

text \<open>
  The state after an offline cycle without noise carries exactly the two rates of
  the scenarios; the cards pass the lower-case symbols of the records.
\<close>

theorem funding_threshold_signal_witness:
  "fundingRates offlineState (toUpperCase ''btc'') = Some 0.0123 \<and> (0.0123 :: real) \<ge> 0.005
   \<and> getTradeSignal offlineState ''btc'' = Some SELL
   \<and> fundingRates offlineState (toUpperCase ''eth'') = Some (- 0.0087) \<and> (- 0.0087 :: real) \<le> - 0.005
   \<and> getTradeSignal offlineState ''eth'' = Some BUY
   \<and> fundingRates offlineState ''BTC'' = Some 0.0123
   \<and> getTradeSignal offlineState ''BTC'' = Some SELL
   \<and> fundingRates offlineState ''ETH'' = Some (- 0.0087)
   \<and> getTradeSignal offlineState ''ETH'' = Some BUY"
  using funding_threshold_signal [of offlineState "''btc''" "0.0123"]
    funding_threshold_signal [of offlineState "''eth''" "- 0.0087"]
  by (simp add: toUpperCase_tracked offlineState_rates)

text \<open>
  Claim C5. With no funding-rate entry for the upper-cased symbol and a record
  of that symbol in the snapshot (the one \<open>find\<close> returns, the first whose
  upper-cased symbol matches), a 24h change of at least 2 gives BUY and one of at
  most -2 gives SELL.
\<close>

theorem momentum_without_funding:
  "fundingRates st (toUpperCase s) = None \<Longrightarrow>
   findCrypto st s = Some c \<Longrightarrow>
   (price_change_percentage_24h c \<ge> 2 \<longrightarrow> getTradeSignal st s = Some BUY)
   \<and> (price_change_percentage_24h c \<le> - 2 \<longrightarrow> getTradeSignal st s = Some SELL)"
  by (simp add: getTradeSignal_def findCrypto_def falsy_def)

theorem momentum_without_funding_witness:
  "fundingRates (offlineState\<lparr>fundingRates := Map.empty\<rparr>) (toUpperCase ''btc'') = None
   \<and> price_change_percentage_24h (mockCryptoData ! 0) = 2.34
   \<and> getTradeSignal (offlineState\<lparr>fundingRates := Map.empty\<rparr>) ''btc'' = Some BUY
   \<and> price_change_percentage_24h (mockCryptoData ! 6) = - 2.45
   \<and> getTradeSignal (offlineState\<lparr>fundingRates := Map.empty\<rparr>) ''sei'' = Some SELL"
  using momentum_without_funding
      [of "offlineState\<lparr>fundingRates := Map.empty\<rparr>" "''btc''" "mockCryptoData ! 0"]
    momentum_without_funding
      [of "offlineState\<lparr>fundingRates := Map.empty\<rparr>" "''sei''" "mockCryptoData ! 6"]
  by (simp add: findCrypto_def toUpperCase_tracked offlineState_eq find_mock change_mock)

text \<open>
  Claim C10. A funding-rate entry that is present but exactly 0 is treated as a
  missing one: the result is the one the same state gives with the entry removed,
  that is the 24h rule followed by the fixed default; it is never \<open>null\<close>, which
  is what a rate inside the band gives, and \<open>getFundingSignal\<close> returns
  \<open>null\<close> for it.
\<close>

theorem zero_rate_taken_as_absent:
  "fundingRates st (toUpperCase s) = Some 0 \<Longrightarrow>
   getTradeSignal st s
     = getTradeSignal (st\<lparr>fundingRates := (fundingRates st)(toUpperCase s := None)\<rparr>) s
   \<and> getTradeSignal st s
     = (case findCrypto st s of
          Some crypto \<Rightarrow>
            if price_change_percentage_24h crypto \<ge> 2 then Some BUY
            else if price_change_percentage_24h crypto \<le> - 2 then Some SELL
            else Some (defaultSignal s)
        | None \<Rightarrow> Some (defaultSignal s))
   \<and> getTradeSignal st s \<noteq> None
   \<and> getFundingSignal st s = None"
  by (simp add: getTradeSignal_def findCrypto_def getFundingSignal_def falsy_def split: option.splits)

theorem zero_rate_taken_as_absent_witness:
  "fundingRates (offlineState\<lparr>fundingRates := [''BNB'' \<mapsto> 0]\<rparr>) (toUpperCase ''bnb'') = Some 0
   \<and> getTradeSignal (offlineState\<lparr>fundingRates := [''BNB'' \<mapsto> 0]\<rparr>) ''bnb'' = Some BUY
   \<and> getTradeSignal (offlineState\<lparr>fundingRates := Map.empty\<rparr>) ''bnb'' = Some BUY
   \<and> getFundingSignal (offlineState\<lparr>fundingRates := [''BNB'' \<mapsto> 0]\<rparr>) ''bnb'' = None"
proof -
  let ?st = "offlineState\<lparr>fundingRates := [''BNB'' \<mapsto> 0]\<rparr>"
  have h: "fundingRates ?st (toUpperCase ''bnb'') = Some 0"
    by (simp add: toUpperCase_tracked)
  have e: "?st\<lparr>fundingRates := (fundingRates ?st)(toUpperCase ''bnb'' := None)\<rparr>
             = offlineState\<lparr>fundingRates := Map.empty\<rparr>"
    by (simp add: toUpperCase_tracked)
  have v: "getTradeSignal (offlineState\<lparr>fundingRates := Map.empty\<rparr>) ''bnb'' = Some BUY"
    by (simp add: getTradeSignal_def findCrypto_def falsy_def toUpperCase_tracked offlineState_eq find_mock
        change_mock defaultSignal_def)
  show ?thesis
    using zero_rate_taken_as_absent [OF h] h v unfolding e by simp
qed

text \<open>
  Claim C2 says that a rate strictly inside the band leads to the 24h rule. The
  code returns \<open>null\<close> there (line 341) without looking at the record: after an
  offline cycle SUI has the rate -0.0023 and a 24h change of 6.78, and no signal.
\<close>

theorem in_band_rate_hides_momentum:
  "fundingRates offlineState (toUpperCase ''sui'') = Some (- 0.0023)
   \<and> findCrypto offlineState ''sui'' = Some (mockCryptoData ! 5)
   \<and> price_change_percentage_24h (mockCryptoData ! 5) = 6.78
   \<and> getTradeSignal offlineState ''sui'' = None"
proof -
  have "cryptoData offlineState = mockCryptoData"
    by (simp add: offlineState_eq)
  then show ?thesis
    by (simp add: toUpperCase_tracked offlineState_rates find_mock change_mock getTradeSignal_def
        findCrypto_def falsy_def)
qed

text \<open>
  Claim C3 as stated fails: ETH is neither of the two named symbols, has no
  funding-rate entry in this state and a 24h change of -0.87, and the result is
  SELL, not \<open>null\<close>.
\<close>

theorem default_not_limited_to_two_symbols:
  "toUpperCase ''eth'' \<noteq> ''BNB'' \<and> toUpperCase ''eth'' \<noteq> ''SUI''
   \<and> fundingRates (offlineState\<lparr>fundingRates := Map.empty\<rparr>) (toUpperCase ''eth'') = None
   \<and> findCrypto (offlineState\<lparr>fundingRates := Map.empty\<rparr>) ''eth'' = Some (mockCryptoData ! 1)
   \<and> price_change_percentage_24h (mockCryptoData ! 1) = - 0.87
   \<and> getTradeSignal (offlineState\<lparr>fundingRates := Map.empty\<rparr>) ''eth'' = Some SELL"
  by (simp add: toUpperCase_tracked offlineState_eq find_mock change_mock getTradeSignal_def
      findCrypto_def falsy_def defaultSignal_def)

text \<open>
  Claim C3, amended. For every symbol with no funding-rate entry whose 24h change
  is strictly between -2 and 2, the result is the fixed default: BUY when the
  upper-cased symbol is BNB and SELL for every other symbol, never \<open>null\<close>.
\<close>

theorem default_signal_for_every_symbol:
  "fundingRates st (toUpperCase s) = None \<Longrightarrow>
   findCrypto st s = Some c \<Longrightarrow>
   - 2 < price_change_percentage_24h c \<Longrightarrow> price_change_percentage_24h c < 2 \<Longrightarrow>
   getTradeSignal st s = Some (if toUpperCase s = ''BNB'' then BUY else SELL)"
  by (simp add: getTradeSignal_def findCrypto_def falsy_def defaultSignal_def)

theorem default_signal_for_every_symbol_witness:
  "fundingRates (offlineState\<lparr>fundingRates := Map.empty\<rparr>) (toUpperCase ''bnb'') = None
   \<and> - 2 < price_change_percentage_24h (mockCryptoData ! 2)
   \<and> price_change_percentage_24h (mockCryptoData ! 2) < 2
   \<and> getTradeSignal (offlineState\<lparr>fundingRates := Map.empty\<rparr>) ''bnb'' = Some BUY"
  using default_signal_for_every_symbol
      [of "offlineState\<lparr>fundingRates := Map.empty\<rparr>" "''bnb''" "mockCryptoData ! 2"]
  by (simp add: findCrypto_def toUpperCase_tracked offlineState_eq find_mock change_mock)

text \<open>
  Claim C9. The result depends on the state only through the two snapshots: two
  states with the same funding-rate map and the same asset records give the same
  result for a symbol, whatever the other fields hold. Two calls in a row return
  the same result and leave the state, hence both snapshots, as it was.
\<close>

theorem getTradeSignal_pure:
  "(fundingRates st' = fundingRates st \<and> cryptoData st' = cryptoData st
      \<longrightarrow> getTradeSignal st' s = getTradeSignal st s)
   \<and> (getTradeSignal_call s st = (r1, st1) \<and> getTradeSignal_call s st1 = (r2, st2)
      \<longrightarrow> r2 = r1 \<and> st1 = st \<and> st2 = st)"
proof (intro conjI impI)
  assume "fundingRates st' = fundingRates st \<and> cryptoData st' = cryptoData st"
  then have f: "fundingRates st' = fundingRates st" and c: "cryptoData st' = cryptoData st"
    by simp_all
  show "getTradeSignal st' s = getTradeSignal st s"
    unfolding getTradeSignal_def findCrypto_def f c by simp
next
  assume a: "getTradeSignal_call s st = (r1, st1) \<and> getTradeSignal_call s st1 = (r2, st2)"
  then have 1: "st1 = st" "r1 = getTradeSignal st s"
    by (auto simp add: getTradeSignal_call_def)
  with a have 2: "st2 = st" "r2 = getTradeSignal st s"
    by (auto simp add: getTradeSignal_call_def)
  from 1 2 show "r2 = r1" "st1 = st" "st2 = st"
    by simp_all
qed

theorem getTradeSignal_pure_witness:
  "fundingRates (offlineState\<lparr>loading := True, error := Some ''x'', lastUpdated := 7\<rparr>)
     = fundingRates offlineState
   \<and> cryptoData (offlineState\<lparr>loading := True, error := Some ''x'', lastUpdated := 7\<rparr>)
     = cryptoData offlineState
   \<and> getTradeSignal (offlineState\<lparr>loading := True, error := Some ''x'', lastUpdated := 7\<rparr>) ''btc''
     = getTradeSignal offlineState ''btc''
   \<and> getTradeSignal_call ''btc'' offlineState = (Some SELL, offlineState)
   \<and> getTradeSignal_call ''btc'' (snd (getTradeSignal_call ''btc'' offlineState))
     = (Some SELL, offlineState)"
  using getTradeSignal_pure
      [of "offlineState\<lparr>loading := True, error := Some ''x'', lastUpdated := 7\<rparr>" offlineState
          "''btc''" "Some SELL" offlineState "Some SELL" offlineState]
    offline_signals
  by (simp add: getTradeSignal_call_def)

end
